theory Spec2Isabelle
  imports Complex_Main "HOL-Library.Sublist"
begin

section \<open>Images, files and the interpreter state\<close>

text \<open>
  Both scripts drive the Pillow imaging library.  The library computes the pixel grids
  (rasterisation of shapes, Lanczos resampling, the PNG and ICO encoders); it is not part
  of the repository.  An image is therefore modelled by its dimensions together with the
  provenance of its pixels: the data it was decoded from, or the library operations that
  produced it, in order.  Two images with the same provenance have the same pixels.
\<close>

datatype colour = RGB int int int | RGBA int int int int

datatype draw_op =
    Rounded_rectangle "(int \<times> int) \<times> (int \<times> int)" int colour
  | Ellipse "rat \<times> rat \<times> rat \<times> rat" colour

datatype pixels =
    Decoded "colour list"
  | Filled colour
  | Drawn pixels draw_op
  | Lanczos pixels "nat \<times> nat" "nat \<times> nat"

record image =
  width :: nat
  height :: nat
  pixels :: pixels

text \<open>
  A file is a PNG holding one image, an ICO container made from one image and holding a
  frame for each box of a set of sizes, or a file the scripts did not write, given with
  the image \<open>Image.open\<close> decodes from it (\<open>None\<close>: not an image).
\<close>

datatype disk_file =
    Png image
  | Ico image "(nat \<times> nat) set"
  | Foreign "image option"

datatype error =
    FileNotFoundError
  | FileExistsError
  | NotADirectoryError
  | IsADirectoryError
  | UnidentifiedImageError
  | ValueError

text \<open>
  The state the scripts act on: the file system (regular files by path, and the set of
  directories), the Python heap of image objects (an object reference is an index into
  it), the lines printed so far, and the working directory.
\<close>

record state =
  files :: "string \<Rightarrow> disk_file option"
  dirs :: "string set"
  heap :: "image list"
  stdout :: "string list"
  cwd :: string

definition print :: "string \<Rightarrow> state \<Rightarrow> state" where
  "print line st = st\<lparr>stdout := stdout st @ [line]\<rparr>"

text \<open>
  Sequencing with exceptions: a raised exception skips the rest and keeps the state
  reached; otherwise the rest runs on the value returned and the new state.
\<close>

definition and_then ::
  "(error + 'a) \<times> state \<Rightarrow> ('a \<Rightarrow> state \<Rightarrow> (error + 'b) \<times> state) \<Rightarrow> (error + 'b) \<times> state" where
  "and_then r f = (case r of (Inl e, st) \<Rightarrow> (Inl e, st) | (Inr x, st) \<Rightarrow> f x st)"

subsection \<open>Formatting\<close>

fun str_nat :: "nat \<Rightarrow> string" where
  "str_nat n =
     (if n < 10 then [char_of (48 + n)]
      else str_nat (n div 10) @ [char_of (48 + n mod 10)])"

text \<open>\<open>str\<close> of a pair of integers, as an f-string renders it.\<close>

definition str_size :: "nat \<times> nat \<Rightarrow> string" where
  "str_size s = ''('' @ str_nat (fst s) @ '', '' @ str_nat (snd s) @ '')''"

subsection \<open>The \<open>os\<close> module (POSIX paths)\<close>

definition os_path_exists :: "state \<Rightarrow> string \<Rightarrow> bool" where
  "os_path_exists st p \<longleftrightarrow> files st p \<noteq> None \<or> p \<in> dirs st"

definition os_path_join :: "string \<Rightarrow> string \<Rightarrow> string" where
  "os_path_join a b =
     (if b \<noteq> [] \<and> hd b = CHR ''/'' then b
      else if a = [] \<or> last a = CHR ''/'' then a @ b
      else a @ ''/'' @ b)"

text \<open>The proper ancestors of a path: its prefixes that end just before a separator.\<close>

definition ancestors :: "string \<Rightarrow> string list" where
  "ancestors p = [take k p. k \<leftarrow> [1..<length p], p ! k = CHR ''/'']"

text \<open>
  \<open>os.makedirs(path, exist_ok=True)\<close>: creates the directory and every missing
  ancestor; an existing directory is accepted; a regular file in the way raises.
\<close>

definition os_makedirs :: "string \<Rightarrow> state \<Rightarrow> (error + unit) \<times> state" where
  "os_makedirs p st =
     (if \<exists>a \<in> set (ancestors p). files st a \<noteq> None then (Inl NotADirectoryError, st)
      else if files st p \<noteq> None then (Inl FileExistsError, st)
      else (Inr (), st\<lparr>dirs := dirs st \<union> set (ancestors p) \<union> {p}\<rparr>))"

subsection \<open>The Pillow calls the exporter makes\<close>

text \<open>
  \<open>Image.open\<close> decodes a PNG, or a foreign image file, into a new image object.
  Reading an ICO container back is not modelled: within a run the only
  \<open>Image.open\<close> precedes every write, so no run reads a container it has written.
\<close>

fun decode :: "disk_file \<Rightarrow> image option" where
  "decode (Png img) = Some img"
| "decode (Ico img boxes) = None"
| "decode (Foreign d) = d"

definition Image_open :: "string \<Rightarrow> state \<Rightarrow> (error + nat) \<times> state" where
  "Image_open p st =
     (case files st p of
        None \<Rightarrow> (Inl (if p \<in> dirs st then IsADirectoryError else FileNotFoundError), st)
      | Some f \<Rightarrow>
          (case decode f of
             None \<Rightarrow> (Inl UnidentifiedImageError, st)
           | Some img \<Rightarrow> (Inr (length (heap st)), st\<lparr>heap := heap st @ [img]\<rparr>)))"

text \<open>
  \<open>Image.resize(size, Image.Resampling.LANCZOS)\<close> returns a resized copy: a new
  object of exactly the requested size whose pixels are resampled from the receiver's.
  The receiver is left as it is.
\<close>

definition resized_image :: "image \<Rightarrow> nat \<times> nat \<Rightarrow> image" where
  "resized_image img s =
     \<lparr>width = fst s, height = snd s,
      pixels = Lanczos (pixels img) (width img, height img) s\<rparr>"

definition Image_resize :: "nat \<Rightarrow> nat \<times> nat \<Rightarrow> state \<Rightarrow> nat \<times> state" where
  "Image_resize r s st =
     (length (heap st), st\<lparr>heap := heap st @ [resized_image (heap st ! r) s]\<rparr>)"

text \<open>\<open>Image.save(path)\<close> with a \<open>.png\<close> name writes the object as a PNG file.\<close>

definition Image_save :: "nat \<Rightarrow> string \<Rightarrow> state \<Rightarrow> (error + unit) \<times> state" where
  "Image_save r p st =
     (if p \<in> dirs st then (Inl IsADirectoryError, st)
      else (Inr (), st\<lparr>files := (files st)(p \<mapsto> Png (heap st ! r))\<rparr>))"

text \<open>
  \<open>Image.save(path, format='ICO', sizes=...)\<close>.  Pillow documents the \<open>sizes\<close>
  option of its ICO writer: a list of sizes to include, where any size bigger than the
  original image or than 256 is ignored.  Each frame kept is a scaled copy; the receiver
  is left as it is.
\<close>

definition ico_kept :: "image \<Rightarrow> (nat \<times> nat) list \<Rightarrow> (nat \<times> nat) list" where
  "ico_kept img ss =
     filter (\<lambda>s. \<not> (fst s > width img \<or> snd s > height img \<or> fst s > 256 \<or> snd s > 256)) ss"

definition Image_save_ico ::
  "nat \<Rightarrow> string \<Rightarrow> (nat \<times> nat) list \<Rightarrow> state \<Rightarrow> (error + unit) \<times> state" where
  "Image_save_ico r p ss st =
     (if p \<in> dirs st then (Inl IsADirectoryError, st)
      else (Inr (), st\<lparr>files := (files st)(p \<mapsto> Ico (heap st ! r) (set (ico_kept (heap st ! r) ss)))\<rparr>))"

section \<open>The exporter: \<open>scripts/process_icons.py\<close>\<close>

text \<open>The size table, in the insertion order a Python dictionary iterates in.\<close>

definition sizes :: "(string \<times> (nat \<times> nat)) list" where
  "sizes =
     [(''icon.png'', (512, 512)),
      (''32x32.png'', (32, 32)),
      (''128x128.png'', (128, 128)),
      (''128x128@2x.png'', (256, 256)),
      (''Square30x30Logo.png'', (30, 30)),
      (''Square44x44Logo.png'', (44, 44)),
      (''Square71x71Logo.png'', (71, 71)),
      (''Square89x89Logo.png'', (89, 89)),
      (''Square107x107Logo.png'', (107, 107)),
      (''Square142x142Logo.png'', (142, 142)),
      (''Square150x150Logo.png'', (150, 150)),
      (''Square284x284Logo.png'', (284, 284)),
      (''Square310x310Logo.png'', (310, 310)),
      (''StoreLogo.png'', (50, 50))]"

definition ico_sizes :: "(nat \<times> nat) list" where
  "ico_sizes = [(256, 256), (128, 128), (64, 64), (48, 48), (32, 32), (16, 16)]"

text \<open>
  The loop \<open>for name, size in sizes.items()\<close>: resize the object \<open>img\<close>, save the
  copy, print.  An exception leaves the loop with the state reached.
\<close>

fun resize_loop ::
  "nat \<Rightarrow> string \<Rightarrow> (string \<times> (nat \<times> nat)) list \<Rightarrow> state \<Rightarrow> (error + unit) \<times> state" where
  "resize_loop img target_dir_tauri [] st = (Inr (), st)"
| "resize_loop img target_dir_tauri ((name, sz) # rest) st =
     (let (resized, st1) = Image_resize img sz st
      in and_then (Image_save resized (os_path_join target_dir_tauri name) st1)
           (\<lambda>u st2. resize_loop img target_dir_tauri rest
                       (print (''Saved '' @ name @ '' ('' @ str_size sz @ '')'') st2)))"

definition process_icon :: "string \<Rightarrow> string \<Rightarrow> string \<Rightarrow> state \<Rightarrow> (error + unit) \<times> state" where
  "process_icon source_path target_dir_tauri target_dir_public st =
     (if \<not> os_path_exists st source_path
      then (Inr (), print (''Error: Source file not found at '' @ source_path) st)
      else
        and_then (os_makedirs target_dir_tauri st) (\<lambda>u st1.
        and_then (os_makedirs target_dir_public st1) (\<lambda>u st2.
        and_then (Image_open source_path st2) (\<lambda>img st3.
        and_then (resize_loop img target_dir_tauri sizes
                   (print (''Processing icons from '' @ source_path @ ''...'') st3)) (\<lambda>u st4.
        and_then (Image_save_ico img (os_path_join target_dir_tauri ''icon.ico'') ico_sizes st4)
          (\<lambda>u st5.
        let (resized, st6) = Image_resize img (512, 512) (print ''Saved icon.ico'' st5)
        in and_then (Image_save resized (os_path_join target_dir_public ''icon.png'') st6)
          (\<lambda>u st7. (Inr (), print ''Saved public/icon.png'' st7))))))))"

text \<open>
  The script's entry point, from the argument vector to the exit status of the process:
  \<open>sys.exit(1)\<close> after the usage message, status 1 for an uncaught exception, status 0
  when the module body runs to its end.
\<close>

definition main :: "string list \<Rightarrow> state \<Rightarrow> int \<times> state" where
  "main argv st =
     (if length argv < 2
      then (1, print ''Usage: python process_icons.py <path_to_source_image>'' st)
      else
        let source_image = argv ! 1;
            project_root = cwd st;
            tauri_icons_dir = os_path_join (os_path_join project_root ''src-tauri'') ''icons'';
            public_dir = os_path_join project_root ''public''
        in (case process_icon source_image tauri_icons_dir public_dir st of
              (Inl e, st') \<Rightarrow> (1, st')
            | (Inr u, st') \<Rightarrow> (0, st')))"

section \<open>Auxiliary definitions for the statements\<close>

definition png_writes :: "string \<Rightarrow> image \<Rightarrow> (string \<times> (nat \<times> nat)) list \<Rightarrow> (string \<times> disk_file) list" where
  "png_writes d img tab = map (\<lambda>(name, sz). (os_path_join d name, Png (resized_image img sz))) tab"

definition out_names :: "string list" where
  "out_names = ''icon.ico'' # map fst sizes"

definition demo_source :: image where
  "demo_source = \<lparr>width = 1024, height = 1024, pixels = Filled (RGBA 20 20 25 255)\<rparr>"

definition demo_state :: state where
  "demo_state =
     \<lparr>files = [''icon_master.png'' \<mapsto> Png demo_source], dirs = {''/proj''}, heap = [],
      stdout = [], cwd = ''/proj''\<rparr>"

definition demo_run :: "(error + unit) \<times> state" where
  "demo_run = process_icon ''icon_master.png'' ''/proj/src-tauri/icons'' ''/proj/public'' demo_state"

definition dirs_made :: "state \<Rightarrow> string \<Rightarrow> string \<Rightarrow> string set" where
  "dirs_made st tauri pub =
     dirs st \<union> set (ancestors tauri) \<union> {tauri} \<union> set (ancestors pub) \<union> {pub}"




definition loop_state :: state where
  "loop_state = demo_state\<lparr>heap := [demo_source]\<rparr>"

section \<open>Facts about the exporter\<close>

lemma process_icon_missing:
  "\<not> os_path_exists st source_path \<Longrightarrow>
     process_icon source_path target_dir_tauri target_dir_public st =
       (Inr (), st\<lparr>stdout := stdout st @ [''Error: Source file not found at '' @ source_path]\<rparr>)"
  by (simp add: process_icon_def print_def)

lemma and_then_Inl [simp]: "and_then (Inl e, st) f = (Inl e, st)"
  by (simp add: and_then_def)

lemma and_then_Inr [simp]: "and_then (Inr x, st) f = f x st"
  by (simp add: and_then_def)

lemma and_then_InrE:
  assumes "and_then r f = (Inr y, st')"
  obtains x st1 where "r = (Inr x, st1)" "f x st1 = (Inr y, st')"
  using assms by (cases r; cases "fst r") (auto simp: and_then_def)

lemma print_fields [simp]:
  "files (print l st) = files st" "dirs (print l st) = dirs st"
  "heap (print l st) = heap st" "cwd (print l st) = cwd st"
  "stdout (print l st) = stdout st @ [l]"
  by (simp_all add: print_def)

lemma os_makedirs_Inr:
  assumes "os_makedirs p st = (Inr u, st')"
  shows "files st' = files st" "heap st' = heap st" "stdout st' = stdout st" "cwd st' = cwd st"
    "dirs st' = dirs st \<union> set (ancestors p) \<union> {p}"
  using assms by (auto simp: os_makedirs_def split: if_splits)

lemma Image_save_Inr:
  assumes "Image_save r p st = (Inr u, st')"
  shows "files st' = (files st)(p \<mapsto> Png (heap st ! r))" "heap st' = heap st"
    "dirs st' = dirs st" "cwd st' = cwd st" "stdout st' = stdout st" "p \<notin> dirs st"
  using assms by (auto simp: Image_save_def split: if_splits)

lemma Image_save_ico_Inr:
  assumes "Image_save_ico r p ss st = (Inr u, st')"
  shows "files st' = (files st)(p \<mapsto> Ico (heap st ! r) (set (ico_kept (heap st ! r) ss)))"
    "heap st' = heap st" "dirs st' = dirs st" "cwd st' = cwd st" "stdout st' = stdout st"
  using assms by (auto simp: Image_save_ico_def split: if_splits)

lemma Image_open_Inr:
  assumes "Image_open p st = (Inr r, st')"
  shows "\<exists>f img. files st p = Some f \<and> decode f = Some img \<and> r = length (heap st) \<and>
           heap st' = heap st @ [img] \<and> files st' = files st \<and> dirs st' = dirs st \<and>
           cwd st' = cwd st \<and> stdout st' = stdout st"
  using assms by (auto simp: Image_open_def split: option.splits)

lemma resize_loop_Inr:
  assumes "resize_loop r d tab st = (Inr u, st')" "r < length (heap st)"
  shows "files st' = files st ++ map_of (rev (png_writes d (heap st ! r) tab)) \<and>
         heap st' = heap st @ map (\<lambda>(name, sz). resized_image (heap st ! r) sz) tab \<and>
         dirs st' = dirs st \<and> cwd st' = cwd st"
  using assms
proof (induction tab arbitrary: st)
  case Nil
  then show ?case by (simp add: png_writes_def)
next
  case (Cons a tab)
  obtain name sz where a: "a = (name, sz)" by (cases a)
  let ?img = "heap st ! r"
  let ?st1 = "st\<lparr>heap := heap st @ [resized_image ?img sz]\<rparr>"
  from Cons.prems(1) obtain x st2 where
    sv: "Image_save (length (heap st)) (os_path_join d name) ?st1 = (Inr x, st2)" and
    rest: "resize_loop r d tab (print (''Saved '' @ name @ '' ('' @ str_size sz @ '')'') st2) = (Inr u, st')"
    by (auto simp: a Image_resize_def elim!: and_then_InrE)
  note s = Image_save_Inr[OF sv]
  let ?st3 = "print (''Saved '' @ name @ '' ('' @ str_size sz @ '')'') st2"
  have h3: "heap ?st3 = heap st @ [resized_image ?img sz]" using s by simp
  have r3: "r < length (heap ?st3)" using Cons.prems(2) h3 by simp
  have i3: "heap ?st3 ! r = ?img" using Cons.prems(2) h3 by (simp add: nth_append)
  have i2: "heap st2 ! r = ?img" using i3 by simp
  from Cons.IH[OF rest r3] have
    f: "files st' = files ?st3 ++ map_of (rev (png_writes d ?img tab))" and
    h: "heap st' = heap ?st3 @ map (\<lambda>(name, sz). resized_image ?img sz) tab" and
    o: "dirs st' = dirs ?st3" "cwd st' = cwd ?st3"
    by (simp_all add: i2)
  have f3: "files ?st3 = (files st)(os_path_join d name \<mapsto> Png (resized_image ?img sz))"
    using s by (simp add: nth_append)
  have "files st' = files st ++ map_of (rev (png_writes d ?img (a # tab)))"
    unfolding f f3 by (simp add: a png_writes_def fun_eq_iff map_add_def split: option.splits)
  moreover have "heap st' = heap st @ map (\<lambda>(name, sz). resized_image ?img sz) (a # tab)"
    unfolding h h3 by (simp add: a)
  moreover have "dirs st' = dirs st" "cwd st' = cwd st" using o s by simp_all
  ultimately show ?case by simp
qed


lemma process_icon_Inr:
  assumes run: "process_icon src tauri pub st = (Inr u, st')" and ex: "os_path_exists st src"
  shows "\<exists>f img. files st src = Some f \<and> decode f = Some img \<and>
    files st' =
      ((files st ++ map_of (rev (png_writes tauri img sizes)))
         (os_path_join tauri ''icon.ico'' \<mapsto> Ico img (set (ico_kept img ico_sizes))))
         (os_path_join pub ''icon.png'' \<mapsto> Png (resized_image img (512, 512))) \<and>
    heap st' = heap st @ img # map (\<lambda>(name, sz). resized_image img sz) sizes
                 @ [resized_image img (512, 512)] \<and>
    dirs st' = dirs st \<union> set (ancestors tauri) \<union> {tauri} \<union> set (ancestors pub) \<union> {pub} \<and>
    cwd st' = cwd st"
proof -
  from run ex obtain u1 st1 where
    m1: "os_makedirs tauri st = (Inr u1, st1)" and
    r1: "and_then (os_makedirs pub st1) (\<lambda>u st2.
        and_then (Image_open src st2) (\<lambda>img st3.
        and_then (resize_loop img tauri sizes
                   (print (''Processing icons from '' @ src @ ''...'') st3)) (\<lambda>u st4.
        and_then (Image_save_ico img (os_path_join tauri ''icon.ico'') ico_sizes st4)
          (\<lambda>u st5.
        let (resized, st6) = Image_resize img (512, 512) (print ''Saved icon.ico'' st5)
        in and_then (Image_save resized (os_path_join pub ''icon.png'') st6)
          (\<lambda>u st7. (Inr (), print ''Saved public/icon.png'' st7)))))) = (Inr u, st')"
    by (auto simp: process_icon_def elim!: and_then_InrE)
  from r1 obtain u2 st2 where
    m2: "os_makedirs pub st1 = (Inr u2, st2)" and
    r2: "and_then (Image_open src st2) (\<lambda>img st3.
        and_then (resize_loop img tauri sizes
                   (print (''Processing icons from '' @ src @ ''...'') st3)) (\<lambda>u st4.
        and_then (Image_save_ico img (os_path_join tauri ''icon.ico'') ico_sizes st4)
          (\<lambda>u st5.
        let (resized, st6) = Image_resize img (512, 512) (print ''Saved icon.ico'' st5)
        in and_then (Image_save resized (os_path_join pub ''icon.png'') st6)
          (\<lambda>u st7. (Inr (), print ''Saved public/icon.png'' st7))))) = (Inr u, st')"
    by (auto elim!: and_then_InrE)
  from r2 obtain r st3 where
    op: "Image_open src st2 = (Inr r, st3)" and
    r3: "and_then (resize_loop r tauri sizes
                   (print (''Processing icons from '' @ src @ ''...'') st3)) (\<lambda>u st4.
        and_then (Image_save_ico r (os_path_join tauri ''icon.ico'') ico_sizes st4)
          (\<lambda>u st5.
        let (resized, st6) = Image_resize r (512, 512) (print ''Saved icon.ico'' st5)
        in and_then (Image_save resized (os_path_join pub ''icon.png'') st6)
          (\<lambda>u st7. (Inr (), print ''Saved public/icon.png'' st7)))) = (Inr u, st')"
    by (auto elim!: and_then_InrE)
  let ?st3 = "print (''Processing icons from '' @ src @ ''...'') st3"
  from r3 obtain u4 st4 where
    lp: "resize_loop r tauri sizes ?st3 = (Inr u4, st4)" and
    r4: "and_then (Image_save_ico r (os_path_join tauri ''icon.ico'') ico_sizes st4)
          (\<lambda>u st5.
        let (resized, st6) = Image_resize r (512, 512) (print ''Saved icon.ico'' st5)
        in and_then (Image_save resized (os_path_join pub ''icon.png'') st6)
          (\<lambda>u st7. (Inr (), print ''Saved public/icon.png'' st7))) = (Inr u, st')"
    by (auto elim!: and_then_InrE)
  from r4 obtain u5 st5 where
    ic: "Image_save_ico r (os_path_join tauri ''icon.ico'') ico_sizes st4 = (Inr u5, st5)" and
    r5: "(let (resized, st6) = Image_resize r (512, 512) (print ''Saved icon.ico'' st5)
        in and_then (Image_save resized (os_path_join pub ''icon.png'') st6)
          (\<lambda>u st7. (Inr (), print ''Saved public/icon.png'' st7))) = (Inr u, st')"
    by (auto elim!: and_then_InrE)
  let ?st5 = "print ''Saved icon.ico'' st5"
  let ?st6 = "?st5\<lparr>heap := heap ?st5 @ [resized_image (heap ?st5 ! r) (512, 512)]\<rparr>"
  from r5 obtain u7 st7 where
    sv: "Image_save (length (heap ?st5)) (os_path_join pub ''icon.png'') ?st6 = (Inr u7, st7)" and
    fin: "st' = print ''Saved public/icon.png'' st7"
    by (auto simp: Image_resize_def elim!: and_then_InrE)
  note a1 = os_makedirs_Inr[OF m1]
  note a2 = os_makedirs_Inr[OF m2]
  from Image_open_Inr[OF op] obtain f img where
    o: "files st2 src = Some f" "decode f = Some img" "r = length (heap st2)"
       "heap st3 = heap st2 @ [img]" "files st3 = files st2" "dirs st3 = dirs st2"
       "cwd st3 = cwd st2"
    by blast
  have rlt: "r < length (heap ?st3)" and ri: "heap ?st3 ! r = img"
    using o by simp_all
  from resize_loop_Inr[OF lp rlt] have
    l: "files st4 = files ?st3 ++ map_of (rev (png_writes tauri img sizes))"
       "heap st4 = heap ?st3 @ map (\<lambda>(name, sz). resized_image img sz) sizes"
       "dirs st4 = dirs ?st3" "cwd st4 = cwd ?st3"
    by (simp_all only: ri)
  have ri4: "heap st4 ! r = img" using l(2) rlt ri by (simp add: nth_append)
  note b = Image_save_ico_Inr[OF ic]
  have ri5: "heap ?st5 ! r = img" using b ri4 by simp
  note c = Image_save_Inr[OF sv]
  have "files st src = Some f" using o a1 a2 by simp
  moreover have "files st' =
      ((files st ++ map_of (rev (png_writes tauri img sizes)))
         (os_path_join tauri ''icon.ico'' \<mapsto> Ico img (set (ico_kept img ico_sizes))))
         (os_path_join pub ''icon.png'' \<mapsto> Png (resized_image img (512, 512)))"
    using fin c(1) b(1) l(1) o(5) a1(1) a2(1) ri4 ri5 b(2) by (simp add: nth_append)
  moreover have "heap st' = heap st @ img # map (\<lambda>(name, sz). resized_image img sz) sizes
                 @ [resized_image img (512, 512)]"
    using fin c(2) b(2) l(2) o(4) a1(2) a2(2) ri5 by simp
  moreover have "dirs st' = dirs st \<union> set (ancestors tauri) \<union> {tauri} \<union> set (ancestors pub) \<union> {pub}"
    using fin c(3) b(3) l(3) o(6) a1(5) a2(5) by simp
  moreover have "cwd st' = cwd st"
    using fin c(4) b(4) l(4) o(7) a1(4) a2(4) by simp
  ultimately show ?thesis using o(2) by blast
qed

lemma suffix_os_path_join: "suffix b (os_path_join a b)"
  by (simp add: os_path_join_def suffix_def)

lemma os_path_join_eq_suffix:
  assumes "os_path_join a n = os_path_join b m"
  shows "suffix n m \<or> suffix m n"
  using suffix_os_path_join[of n a] suffix_os_path_join[of m b] assms
  by (metis suffix_same_cases)

lemma out_names_no_suffix:
  "\<forall>n \<in> set out_names. \<forall>m \<in> set out_names. suffix n m \<longrightarrow> n = m"
  by (simp add: out_names_def sizes_def suffix_to_prefix)


lemma sizes_names_in_out_names: "(name, sz) \<in> set sizes \<Longrightarrow> name \<in> set out_names"
  by (force simp: out_names_def)

lemma os_path_join_out_names:
  assumes "os_path_join a n = os_path_join b m" "n \<in> set out_names" "m \<in> set out_names"
  shows "n = m"
  using os_path_join_eq_suffix[OF assms(1)] out_names_no_suffix assms(2,3) by metis

lemma distinct_sizes_names: "distinct (map fst sizes)"
  by (simp add: sizes_def)

lemma distinct_png_writes: "distinct (map fst (png_writes d img sizes))"
proof -
  have "map fst (png_writes d img sizes) = map (os_path_join d) (map fst sizes)"
    by (simp add: png_writes_def case_prod_unfold comp_def)
  moreover have "inj_on (os_path_join d) (set (map fst sizes))"
  proof (rule inj_onI)
    fix x y
    assume "x \<in> set (map fst sizes)" "y \<in> set (map fst sizes)"
      and e: "os_path_join d x = os_path_join d y"
    then obtain sx sy where "(x, sx) \<in> set sizes" "(y, sy) \<in> set sizes" by auto
    then have "x \<in> set out_names" "y \<in> set out_names"
      by (simp_all add: sizes_names_in_out_names)
    with e show "x = y" by (rule os_path_join_out_names)
  qed
  moreover have "distinct (map (os_path_join d) (map fst sizes))"
    using distinct_sizes_names \<open>inj_on (os_path_join d) (set (map fst sizes))\<close>
    by (simp only: distinct_map)
  ultimately show ?thesis by simp
qed

lemma png_writes_lookup:
  assumes "(name, sz) \<in> set sizes"
  shows "map_of (rev (png_writes d img sizes)) (os_path_join d name) = Some (Png (resized_image img sz))"
proof -
  have "distinct (map fst (rev (png_writes d img sizes)))"
    using distinct_png_writes[of d img] by (simp add: rev_map[symmetric])
  moreover have "(os_path_join d name, Png (resized_image img sz)) \<in> set (rev (png_writes d img sizes))"
    using assms by (force simp: png_writes_def)
  ultimately show ?thesis by simp
qed


lemma icon_png_size: "(''icon.png'', sz) \<in> set sizes \<Longrightarrow> sz = (512, 512)"
  by (simp add: sizes_def)

lemma icon_ico_not_in_sizes: "''icon.ico'' \<notin> fst ` set sizes"
  by (simp add: sizes_def)

lemma icon_names_in_out_names: "''icon.ico'' \<in> set out_names" "''icon.png'' \<in> set out_names"
  by (simp_all add: out_names_def sizes_def)

text \<open>What a successful run leaves at each output path.\<close>

lemma process_icon_outputs:
  assumes run: "process_icon src tauri pub st = (Inr u, st')" and ex: "os_path_exists st src"
  shows "\<exists>f img. files st src = Some f \<and> decode f = Some img \<and>
    (\<forall>name sz. (name, sz) \<in> set sizes \<longrightarrow>
       files st' (os_path_join tauri name) = Some (Png (resized_image img sz))) \<and>
    files st' (os_path_join tauri ''icon.ico'') = Some (Ico img (set (ico_kept img ico_sizes))) \<and>
    files st' (os_path_join pub ''icon.png'') = Some (Png (resized_image img (512, 512)))"
proof -
  from process_icon_Inr[OF run ex] obtain f img where
    src: "files st src = Some f" "decode f = Some img" and
    fs: "files st' =
      ((files st ++ map_of (rev (png_writes tauri img sizes)))
         (os_path_join tauri ''icon.ico'' \<mapsto> Ico img (set (ico_kept img ico_sizes))))
         (os_path_join pub ''icon.png'' \<mapsto> Png (resized_image img (512, 512)))"
    by blast
  have ne: "os_path_join tauri ''icon.ico'' \<noteq> os_path_join pub ''icon.png''"
    using os_path_join_out_names[of tauri "''icon.ico''" pub "''icon.png''"] icon_names_in_out_names
    by auto
  have tab: "files st' (os_path_join tauri name) = Some (Png (resized_image img sz))"
    if m: "(name, sz) \<in> set sizes" for name sz
  proof (cases "os_path_join tauri name = os_path_join pub ''icon.png''")
    case True
    then have "name = ''icon.png''"
      using os_path_join_out_names sizes_names_in_out_names[OF m] icon_names_in_out_names(2)
      by blast
    with m have "sz = (512, 512)" by (simp add: icon_png_size)
    with True show ?thesis by (simp add: fs)
  next
    case False
    have "name \<noteq> ''icon.ico''" using m icon_ico_not_in_sizes by force
    then have "os_path_join tauri name \<noteq> os_path_join tauri ''icon.ico''"
      using os_path_join_out_names sizes_names_in_out_names[OF m] icon_names_in_out_names(1)
      by blast
    with False show ?thesis
      by (simp add: fs map_add_def png_writes_lookup[OF m])
  qed
  show ?thesis
    using src tab ne by (intro exI[of _ f] exI[of _ img]) (simp add: fs)
qed


lemma resize_loop_succeeds:
  assumes "\<forall>(name, sz) \<in> set tab. os_path_join d name \<notin> dirs st"
  shows "\<exists>st'. resize_loop r d tab st = (Inr (), st')"
  using assms
proof (induction tab arbitrary: st)
  case Nil
  then show ?case by simp
next
  case (Cons a tab)
  obtain name sz where a: "a = (name, sz)" by (cases a)
  let ?st1 = "st\<lparr>heap := heap st @ [resized_image (heap st ! r) sz]\<rparr>"
  let ?st2 = "?st1\<lparr>files := (files ?st1)(os_path_join d name \<mapsto> Png (heap ?st1 ! length (heap st)))\<rparr>"
  let ?st3 = "print (''Saved '' @ name @ '' ('' @ str_size sz @ '')'') ?st2"
  have "\<forall>(name, sz) \<in> set tab. os_path_join d name \<notin> dirs ?st3"
    using Cons.prems by simp
  from Cons.IH[OF this] obtain st' where "resize_loop r d tab ?st3 = (Inr (), st')" ..
  moreover have "os_path_join d name \<notin> dirs st" using Cons.prems a by simp
  ultimately show ?case
    by (simp add: a Image_resize_def Image_save_def)
qed

lemma os_makedirs_succeeds:
  assumes "\<forall>a \<in> set (p # ancestors p). files st a = None"
  shows "\<exists>st'. os_makedirs p st = (Inr (), st')"
  using assms by (simp add: os_makedirs_def)

lemma Image_save_succeeds:
  assumes "p \<notin> dirs st"
  shows "\<exists>st'. Image_save r p st = (Inr (), st')"
  using assms by (simp add: Image_save_def)

lemma process_icon_succeeds:
  assumes src: "files st src = Some f" "decode f = Some img"
    and t: "\<forall>a \<in> set (tauri # ancestors tauri). files st a = None"
    and p: "\<forall>a \<in> set (pub # ancestors pub). files st a = None"
    and n: "\<forall>n \<in> set out_names. os_path_join tauri n \<notin> dirs_made st tauri pub"
    and q: "os_path_join pub ''icon.png'' \<notin> dirs_made st tauri pub"
  shows "\<exists>st'. process_icon src tauri pub st = (Inr (), st')"
proof -
  have ex: "os_path_exists st src" using src by (simp add: os_path_exists_def)
  from os_makedirs_succeeds[OF t] obtain st1 where
    m1: "os_makedirs tauri st = (Inr (), st1)" ..
  note a1 = os_makedirs_Inr[OF m1]
  have "\<forall>a \<in> set (pub # ancestors pub). files st1 a = None" using p a1(1) by simp
  from os_makedirs_succeeds[OF this] obtain st2 where
    m2: "os_makedirs pub st1 = (Inr (), st2)" ..
  note a2 = os_makedirs_Inr[OF m2]
  have d2: "dirs st2 = dirs_made st tauri pub" using a1(5) a2(5) by (simp add: dirs_made_def)
  obtain st3 where op: "Image_open src st2 = (Inr (length (heap st2)), st3)"
    using src a1(1) a2(1) by (simp add: Image_open_def)
  from Image_open_Inr[OF op] have
    o: "heap st3 = heap st2 @ [img]" "dirs st3 = dirs st2"
    using src a1(1) a2(1) by auto
  let ?r = "length (heap st2)"
  let ?st3 = "print (''Processing icons from '' @ src @ ''...'') st3"
  have "\<forall>(name, sz) \<in> set sizes. os_path_join tauri name \<notin> dirs ?st3"
    using n o(2) d2 by (auto simp: out_names_def)
  from resize_loop_succeeds[OF this] obtain st4 where
    lp: "resize_loop ?r tauri sizes ?st3 = (Inr (), st4)" by blast
  have "?r < length (heap ?st3)" using o(1) by simp
  from resize_loop_Inr[OF lp this] have d4: "dirs st4 = dirs_made st tauri pub"
    using o(2) d2 by simp
  have "os_path_join tauri ''icon.ico'' \<notin> dirs st4"
    using n d4 by (simp add: out_names_def)
  then obtain st5 where
    ic: "Image_save_ico ?r (os_path_join tauri ''icon.ico'') ico_sizes st4 = (Inr (), st5)"
    by (simp add: Image_save_ico_def)
  note b = Image_save_ico_Inr[OF ic]
  obtain k st6 where rz: "Image_resize ?r (512, 512) (print ''Saved icon.ico'' st5) = (k, st6)"
    by (cases "Image_resize ?r (512, 512) (print ''Saved icon.ico'' st5)")
  then have "dirs st6 = dirs st5" by (auto simp: Image_resize_def)
  then have "os_path_join pub ''icon.png'' \<notin> dirs st6"
    using q d4 b(3) by simp
  from Image_save_succeeds[OF this] obtain st7 where
    sv: "Image_save k (os_path_join pub ''icon.png'') st6 = (Inr (), st7)" ..
  have "process_icon src tauri pub st = (Inr (), print ''Saved public/icon.png'' st7)"
    by (simp only: process_icon_def ex not_True_eq_False if_False m1 m2 op lp ic rz sv
          and_then_Inr Let_def prod.case)
  then show ?thesis ..
qed

lemma demo_run_ok: "\<exists>st'. demo_run = (Inr (), st')"
  unfolding demo_run_def
  by (rule process_icon_succeeds[where f = "Png demo_source" and img = demo_source])
     (simp_all add: demo_state_def ancestors_def dirs_made_def out_names_def sizes_def os_path_join_def)


lemma resize_loop_heap_prefix:
  "resize_loop r d tab st = (res, st') \<Longrightarrow> prefix (heap st) (heap st')"
proof (induction tab arbitrary: st)
  case Nil
  then show ?case by simp
next
  case (Cons a tab)
  obtain name sz where a: "a = (name, sz)" by (cases a)
  let ?st1 = "st\<lparr>heap := heap st @ [resized_image (heap st ! r) sz]\<rparr>"
  show ?case
  proof (cases "os_path_join d name \<in> dirs st")
    case True
    with Cons.prems show ?thesis
      by (auto simp: a Image_resize_def Image_save_def)
  next
    case False
    let ?st2 = "?st1\<lparr>files := (files ?st1)(os_path_join d name \<mapsto> Png (heap ?st1 ! length (heap st)))\<rparr>"
    let ?st3 = "print (''Saved '' @ name @ '' ('' @ str_size sz @ '')'') ?st2"
    from Cons.prems False have "resize_loop r d tab ?st3 = (res, st')"
      by (simp add: a Image_resize_def Image_save_def)
    from Cons.IH[OF this] have "prefix (heap st @ [resized_image (heap st ! r) sz]) (heap st')"
      by simp
    then show ?thesis by (rule append_prefixD)
  qed
qed







section \<open>Claims about the exporter\<close>

text \<open>
  Claim C4.  When the source path does not exist, the exporter reports the missing source
  on standard output, returns without raising, and leaves the file system as it was: no
  file is written, no directory is created, no image object is allocated.
\<close>

theorem source_not_found_writes_nothing:
  assumes "\<not> os_path_exists st source_path"
  shows "\<exists>st'. process_icon source_path target_dir_tauri target_dir_public st = (Inr (), st') \<and>
           stdout st' = stdout st @ [''Error: Source file not found at '' @ source_path] \<and>
           files st' = files st \<and> dirs st' = dirs st \<and> heap st' = heap st \<and> cwd st' = cwd st"
  using assms by (simp add: process_icon_missing)

theorem source_not_found_writes_nothing_witness:
  "\<not> os_path_exists demo_state ''missing.png'' \<and>
   (\<exists>st'. process_icon ''missing.png'' ''/proj/src-tauri/icons'' ''/proj/public'' demo_state = (Inr (), st') \<and>
          stdout st' = [''Error: Source file not found at missing.png''] \<and>
          files st' = files demo_state \<and> dirs st' = {''/proj''} \<and> heap st' = [])"
proof -
  have h: "\<not> os_path_exists demo_state ''missing.png''"
    by (simp add: os_path_exists_def demo_state_def)
  from source_not_found_writes_nothing[OF h, of "''/proj/src-tauri/icons''" "''/proj/public''"]
  obtain st' where
    "process_icon ''missing.png'' ''/proj/src-tauri/icons'' ''/proj/public'' demo_state = (Inr (), st')"
    "stdout st' = stdout demo_state @ [''Error: Source file not found at '' @ ''missing.png'']"
    "files st' = files demo_state" "dirs st' = dirs demo_state" "heap st' = heap demo_state"
    by blast
  moreover have "stdout demo_state = []" "dirs demo_state = {''/proj''}" "heap demo_state = []"
    by (simp_all add: demo_state_def)
  ultimately show ?thesis using h by (intro conjI exI[of _ st']) simp_all
qed

text \<open>
  Claim C10.  Run from the command line on a source path that does not exist, the export
  function returns normally, so the process ends with exit status 0; the existence check
  precedes \<open>os.makedirs\<close>, so neither destination directory is created (and no file
  is written).
\<close>

theorem main_missing_source_exit_status:
  assumes "2 \<le> length argv" "\<not> os_path_exists st (argv ! 1)"
  shows "fst (process_icon (argv ! 1)
                (os_path_join (os_path_join (cwd st) ''src-tauri'') ''icons'')
                (os_path_join (cwd st) ''public'') st) = Inr () \<and>
         fst (main argv st) = 0 \<and>
         dirs (snd (main argv st)) = dirs st \<and> files (snd (main argv st)) = files st"
  using assms by (simp add: main_def Let_def process_icon_missing)

theorem main_missing_source_exit_status_witness:
  "2 \<le> length [''process_icons.py'', ''missing.png''] \<and>
   \<not> os_path_exists demo_state ([''process_icons.py'', ''missing.png''] ! 1) \<and>
   fst (main [''process_icons.py'', ''missing.png''] demo_state) = 0 \<and>
   dirs (snd (main [''process_icons.py'', ''missing.png''] demo_state)) = {''/proj''}"
proof -
  have h1: "2 \<le> length [''process_icons.py'', ''missing.png'']" by simp
  have h2: "\<not> os_path_exists demo_state ([''process_icons.py'', ''missing.png''] ! 1)"
    by (simp add: os_path_exists_def demo_state_def)
  from main_missing_source_exit_status[OF h1 h2] h1 h2
  show ?thesis by (simp add: demo_state_def)
qed

text \<open>
  Claim C1.  After a successful run on an existing source, for every entry
  \<open>(filename, (width, height))\<close> of the size table the file saved under that name in
  the packaging directory is a PNG of exactly \<open>width \<times> height\<close> pixels, and the
  \<open>icon.png\<close> of the public directory is a PNG of exactly 512 by 512 pixels.
\<close>

theorem size_table_dimensions:
  assumes "process_icon source_path target_dir_tauri target_dir_public st = (Inr u, st')"
    and "os_path_exists st source_path"
  shows "(\<forall>(name, w, h) \<in> set sizes.
            \<exists>img. files st' (os_path_join target_dir_tauri name) = Some (Png img) \<and>
                  width img = w \<and> height img = h) \<and>
         (\<exists>img. files st' (os_path_join target_dir_public ''icon.png'') = Some (Png img) \<and>
                width img = 512 \<and> height img = 512)"
proof -
  from process_icon_outputs[OF assms] obtain f img where
    tab: "\<And>name sz. (name, sz) \<in> set sizes \<Longrightarrow>
       files st' (os_path_join target_dir_tauri name) = Some (Png (resized_image img sz))" and
    pub: "files st' (os_path_join target_dir_public ''icon.png'') = Some (Png (resized_image img (512, 512)))"
    by blast
  have "\<exists>i. files st' (os_path_join target_dir_tauri name) = Some (Png i) \<and> width i = w \<and> height i = h"
    if "(name, w, h) \<in> set sizes" for name w h
    using tab[OF that] by (simp add: resized_image_def)
  moreover have "\<exists>i. files st' (os_path_join target_dir_public ''icon.png'') = Some (Png i) \<and>
                width i = 512 \<and> height i = 512"
    using pub by (simp add: resized_image_def)
  ultimately show ?thesis by blast
qed

theorem size_table_dimensions_witness:
  "os_path_exists demo_state ''icon_master.png'' \<and> fst demo_run = Inr () \<and>
   (\<exists>img. files (snd demo_run) (os_path_join ''/proj/src-tauri/icons'' ''32x32.png'') = Some (Png img) \<and>
          width img = 32 \<and> height img = 32) \<and>
   (\<exists>img. files (snd demo_run) (os_path_join ''/proj/public'' ''icon.png'') = Some (Png img) \<and>
          width img = 512 \<and> height img = 512)"
proof -
  have ex: "os_path_exists demo_state ''icon_master.png''"
    by (simp add: os_path_exists_def demo_state_def)
  obtain st' where run: "demo_run = (Inr (), st')" using demo_run_ok ..
  then have run': "process_icon ''icon_master.png'' ''/proj/src-tauri/icons'' ''/proj/public'' demo_state
      = (Inr (), st')"
    by (simp only: demo_run_def)
  have m: "(''32x32.png'', 32, 32) \<in> set sizes" by (simp add: sizes_def)
  note t = size_table_dimensions[OF run' ex]
  from bspec[OF conjunct1[OF t] m] have
    A: "\<exists>img. files st' (os_path_join ''/proj/src-tauri/icons'' ''32x32.png'') = Some (Png img) \<and>
                  width img = 32 \<and> height img = 32"
    by (simp only: prod.case)
  have f: "fst demo_run = Inr ()" and s: "snd demo_run = st'"
    by (simp_all only: run fst_conv snd_conv)
  show ?thesis
    by (simp only: f s) (intro conjI ex refl A conjunct2[OF t])
qed

text \<open>
  Claim C6.  The image object loaded from the source is never changed by the run.  The
  resize loop, over any table and from any state, only allocates new objects: every object
  that exists keeps its address and its value, the source among them, whatever the number
  of iterations and however the loop ends.  After a successful run the heap still holds
  the decoded source, and every output (each table entry, the ICO container and the
  public copy) is made from that original image, none from an earlier resized copy.
\<close>

theorem exporter_source_never_mutated:
  "(resize_loop r d tab st0 = (res, stk) \<and> r < length (heap st0) \<longrightarrow>
      prefix (heap st0) (heap stk) \<and> heap stk ! r = heap st0 ! r) \<and>
   (process_icon source_path target_dir_tauri target_dir_public st = (Inr u, st') \<and>
    os_path_exists st source_path \<longrightarrow>
      (\<exists>img. Option.bind (files st source_path) decode = Some img \<and>
         prefix (heap st @ [img]) (heap st') \<and>
         (\<forall>(name, sz) \<in> set sizes.
            files st' (os_path_join target_dir_tauri name) = Some (Png (resized_image img sz))) \<and>
         files st' (os_path_join target_dir_tauri ''icon.ico'') =
            Some (Ico img (set (ico_kept img ico_sizes))) \<and>
         files st' (os_path_join target_dir_public ''icon.png'') =
            Some (Png (resized_image img (512, 512)))))"
proof (intro conjI impI)
  assume a: "resize_loop r d tab st0 = (res, stk) \<and> r < length (heap st0)"
  then have p: "prefix (heap st0) (heap stk)" by (blast intro: resize_loop_heap_prefix)
  then show "prefix (heap st0) (heap stk)" .
  from p obtain zs where "heap stk = heap st0 @ zs" by (auto simp: prefix_def)
  with a show "heap stk ! r = heap st0 ! r" by (simp add: nth_append)
next
  assume a: "process_icon source_path target_dir_tauri target_dir_public st = (Inr u, st') \<and>
    os_path_exists st source_path"
  then have run: "process_icon source_path target_dir_tauri target_dir_public st = (Inr u, st')"
    and ex: "os_path_exists st source_path" by simp_all
  from process_icon_outputs[OF run ex] obtain f img where
    src: "files st source_path = Some f" "decode f = Some img" and
    tab: "\<And>name sz. (name, sz) \<in> set sizes \<Longrightarrow>
       files st' (os_path_join target_dir_tauri name) = Some (Png (resized_image img sz))" and
    ico: "files st' (os_path_join target_dir_tauri ''icon.ico'') = Some (Ico img (set (ico_kept img ico_sizes)))" and
    pub: "files st' (os_path_join target_dir_public ''icon.png'') = Some (Png (resized_image img (512, 512)))"
    by blast
  from process_icon_Inr[OF run ex] src have
    "heap st' = heap st @ img # map (\<lambda>(name, sz). resized_image img sz) sizes
                 @ [resized_image img (512, 512)]"
    by auto
  then have h: "prefix (heap st @ [img]) (heap st')" by (simp add: prefix_def)
  have b: "Option.bind (files st source_path) decode = Some img" using src by simp
  have t: "\<forall>(name, sz) \<in> set sizes.
            files st' (os_path_join target_dir_tauri name) = Some (Png (resized_image img sz))"
    using tab by blast
  show "\<exists>img. Option.bind (files st source_path) decode = Some img \<and>
         prefix (heap st @ [img]) (heap st') \<and>
         (\<forall>(name, sz) \<in> set sizes.
            files st' (os_path_join target_dir_tauri name) = Some (Png (resized_image img sz))) \<and>
         files st' (os_path_join target_dir_tauri ''icon.ico'') =
            Some (Ico img (set (ico_kept img ico_sizes))) \<and>
         files st' (os_path_join target_dir_public ''icon.png'') =
            Some (Png (resized_image img (512, 512)))"
    using b h t ico pub by (intro exI[of _ img] conjI)
qed

theorem exporter_source_never_mutated_witness:
  "os_path_exists demo_state ''icon_master.png'' \<and> fst demo_run = Inr () \<and>
   prefix [demo_source] (heap (snd demo_run)) \<and>
   files (snd demo_run) (os_path_join ''/proj/src-tauri/icons'' ''32x32.png'') =
     Some (Png (resized_image demo_source (32, 32))) \<and>
   files (snd demo_run) (os_path_join ''/proj/public'' ''icon.png'') =
     Some (Png (resized_image demo_source (512, 512))) \<and>
   (\<exists>stk. resize_loop 0 ''/proj/src-tauri/icons'' sizes loop_state = (Inr (), stk) \<and>
          0 < length (heap loop_state) \<and> prefix (heap loop_state) (heap stk) \<and>
          heap stk ! 0 = demo_source)"
proof -
  have ex: "os_path_exists demo_state ''icon_master.png''"
    by (simp add: os_path_exists_def demo_state_def)
  obtain st' where run: "demo_run = (Inr (), st')" using demo_run_ok ..
  then have run': "process_icon ''icon_master.png'' ''/proj/src-tauri/icons'' ''/proj/public'' demo_state
      = (Inr (), st')"
    by (simp only: demo_run_def)
  have "\<forall>(name, sz) \<in> set sizes. os_path_join ''/proj/src-tauri/icons'' name \<notin> dirs loop_state"
    by (simp add: loop_state_def demo_state_def sizes_def os_path_join_def)
  from resize_loop_succeeds[OF this] obtain stk where
    lp: "resize_loop 0 ''/proj/src-tauri/icons'' sizes loop_state = (Inr (), stk)" by blast
  have l0: "0 < length (heap loop_state)" and l1: "heap loop_state ! 0 = demo_source"
    by (simp_all add: loop_state_def)
  note t = exporter_source_never_mutated[where r = 0 and d = "''/proj/src-tauri/icons''"
      and tab = sizes and ?st0.0 = loop_state and res = "Inr ()" and stk = stk
      and source_path = "''icon_master.png''" and target_dir_tauri = "''/proj/src-tauri/icons''"
      and target_dir_public = "''/proj/public''" and st = demo_state and u = "()" and st' = st']
  from conjunct1[OF t] lp l0 l1 have
    A: "prefix (heap loop_state) (heap stk)" "heap stk ! 0 = demo_source" by simp_all
  from conjunct2[OF t] run' ex obtain img where
    B: "Option.bind (files demo_state ''icon_master.png'') decode = Some img"
       "prefix (heap demo_state @ [img]) (heap st')"
       "\<forall>(name, sz) \<in> set sizes.
            files st' (os_path_join ''/proj/src-tauri/icons'' name) = Some (Png (resized_image img sz))"
       "files st' (os_path_join ''/proj/public'' ''icon.png'') =
            Some (Png (resized_image img (512, 512)))"
    by blast
  from B(1) have img: "img = demo_source" by (simp add: demo_state_def)
  have m: "(''32x32.png'', 32, 32) \<in> set sizes" by (simp add: sizes_def)
  from bspec[OF B(3) m] have
    C: "files st' (os_path_join ''/proj/src-tauri/icons'' ''32x32.png'') =
          Some (Png (resized_image demo_source (32, 32)))"
    by (simp only: prod.case img)
  have D: "prefix [demo_source] (heap st')" using B(2) by (simp add: img demo_state_def)
  have E: "files st' (os_path_join ''/proj/public'' ''icon.png'') =
            Some (Png (resized_image demo_source (512, 512)))"
    using B(4) by (simp only: img)
  have f: "fst demo_run = Inr ()" and s: "snd demo_run = st'"
    by (simp_all only: run fst_conv snd_conv)
  have F: "\<exists>stk. resize_loop 0 ''/proj/src-tauri/icons'' sizes loop_state = (Inr (), stk) \<and>
          0 < length (heap loop_state) \<and> prefix (heap loop_state) (heap stk) \<and>
          heap stk ! 0 = demo_source"
    using lp l0 A by blast
  show ?thesis
    by (simp only: f s) (intro conjI ex refl C D E F)
qed




end
